theory Spec2Isabelle
  imports Complex_Main
begin

section \<open>Conventions\<close>

text \<open>
  The application is a set of Streamlit pages. Each button handler is embedded as a
  function from the values of its input widgets to the dictionary it stores in the
  session state. Python floats are read as real numbers (rounding is not modelled),
  Python ints as \<open>int\<close>, strings as \<open>string\<close>, and a raised exception as
  the left summand of a result.
\<close>

datatype py_error = KeyError | IndexError | ValueError

text \<open>Python's \<open>int(x)\<close> on a float: truncation towards zero.\<close>

definition py_int :: "real \<Rightarrow> int" where
  "py_int x = (if 0 \<le> x then \<lfloor>x\<rfloor> else \<lceil>x\<rceil>)"

section \<open>Energy estimator: pages/2_Geographic_Calculator.py\<close>

text \<open>The dictionary stored as \<open>st.session_state.geo_data\<close> (the computed entries).\<close>

record geo_data =
  P_waterfall_MW :: real
  P_geo_MW :: real
  P_total_MW :: real
  E_waterfall_year_MWh :: real
  E_geo_year_MWh :: real
  E_waste_recovered_MWh :: real
  E_total_year_MWh :: real
  households_total :: int
  pipe_material :: string
  has_waterfall :: bool
  has_geothermal :: bool

text \<open>
  The local \<open>thermal_power_kW\<close> of the geothermal branch, with the constants
  \<open>flow_rate_geo\<close>, \<open>specific_heat\<close> and \<open>surface_temp\<close> of the handler.
\<close>

definition thermal_power_kW :: "real \<Rightarrow> real" where
  "thermal_power_kW geo_temp =
     (let specific_heat = 4.18;
          surface_temp = 25;
          flow_rate_geo = 50.0;
          temp_diff = geo_temp - surface_temp
      in flow_rate_geo * specific_heat * temp_diff)"

text \<open>The handler of the button "Calculate Energy Potential" (lines 270 to 351).\<close>

definition calculate ::
  "real \<Rightarrow> real \<Rightarrow> real \<Rightarrow> real \<Rightarrow> real \<Rightarrow> real \<Rightarrow> real \<Rightarrow> geo_data" where
  "calculate waterfall_height waterfall_flow geo_temp depth
             turbine_efficiency geo_efficiency capacity_factor =
     (let rho = 1000;
          g = 9.81;
          (P_wf, E_wf, has_wf) =
            (if waterfall_height > 0 \<and> waterfall_flow > 0 then
               let P_waterfall_watts =
                     rho * g * waterfall_flow * waterfall_height * turbine_efficiency;
                   P = P_waterfall_watts / 1000000
               in (P, P * 24 * 365, True)
             else (0, 0, False));
          (P_g, E_g, material, has_g) =
            (if geo_temp > 50 \<and> depth > 0 then
               let P = (thermal_power_kW geo_temp * geo_efficiency) / 1000;
                   E = P * 24 * 365 * capacity_factor;
                   m = (if geo_temp < 300 then ''Stainless Steel / Incoloy''
                        else if geo_temp < 600 then ''Inconel alloys / Nickel-chromium''
                        else ''Ceramic composites / SiC / Titanium alloys'')
               in (P, E, m, True)
             else (0, 0, ''N/A'', False));
          E_waste = (E_wf + E_g) * 0.05;
          E_total = E_wf + E_g + E_waste
      in \<lparr> P_waterfall_MW = P_wf,
           P_geo_MW = P_g,
           P_total_MW = P_wf + P_g,
           E_waterfall_year_MWh = E_wf,
           E_geo_year_MWh = E_g,
           E_waste_recovered_MWh = E_waste,
           E_total_year_MWh = E_total,
           households_total = py_int (E_total * 1000 / 7.2),
           pipe_material = material,
           has_waterfall = has_wf,
           has_geothermal = has_g \<rparr>)"

text \<open>
  One row of the batch analysis (lines 776 to 788): the same formulas with the
  efficiencies fixed at 0.9, 0.15 and 0.85; the depth column is read but not used.
\<close>

definition batch_waterfall :: "real \<Rightarrow> real \<Rightarrow> real \<times> real" where
  "batch_waterfall h q =
     (if h > 0 \<and> q > 0 then
        let p_waterfall = (1000 * 9.81 * q * h * 0.9) / 1000000
        in (p_waterfall, p_waterfall * 24 * 365)
      else (0, 0))"

definition batch_geo :: "real \<Rightarrow> real \<times> real" where
  "batch_geo temp =
     (if temp > 50 then
        let p_geo = (50 * 4.18 * (temp - 25) * 0.15) / 1000
        in (p_geo, p_geo * 24 * 365 * 0.85)
      else (0, 0))"

section \<open>Document validation: pages/1_PDF_Analyzer.py\<close>

text \<open>
  The viability test applied to an extracted temperature before the data is sent to
  the calculator (lines 265 and 292): \<open>extracted_data.get('geo_temp', 0) >= 50\<close>.
\<close>

definition pdf_has_geothermal :: "real option \<Rightarrow> bool" where
  "pdf_has_geothermal geo_temp = ((case geo_temp of None \<Rightarrow> 0 | Some t \<Rightarrow> t) \<ge> 50)"

section \<open>Forecast page: pages/3_Time_Series_Predictor.py\<close>

subsection \<open>Python containers and loops\<close>

text \<open>\<open>d[k]\<close> on a dictionary literal: \<open>KeyError\<close> when the key is absent.\<close>

definition dict_lookup :: "('k \<times> 'v) list \<Rightarrow> 'k \<Rightarrow> py_error + 'v" where
  "dict_lookup d k = (case map_of d k of None \<Rightarrow> Inl KeyError | Some v \<Rightarrow> Inr v)"

text \<open>\<open>xs[i]\<close> on a list: a negative index counts from the end, \<open>IndexError\<close> outside.\<close>

definition list_index :: "'a list \<Rightarrow> int \<Rightarrow> py_error + 'a" where
  "list_index xs i =
     (if 0 \<le> i \<and> i < int (length xs) then Inr (xs ! nat i)
      else if - int (length xs) \<le> i \<and> i < 0 then Inr (xs ! nat (int (length xs) + i))
      else Inl IndexError)"

text \<open>
  \<open>for i in it: body\<close> over an accumulated state; an exception raised by the body
  ends the loop.
\<close>

fun for_each :: "('s \<Rightarrow> 'i \<Rightarrow> py_error + 's) \<Rightarrow> 'i list \<Rightarrow> 's \<Rightarrow> py_error + 's" where
  "for_each body [] s = Inr s"
| "for_each body (i # is) s =
     (case body s i of Inl e \<Rightarrow> Inl e | Inr s' \<Rightarrow> for_each body is s')"

text \<open>The decimal digits of a non-negative integer, as an f-string prints them.\<close>

fun str_nat :: "nat \<Rightarrow> string" where
  "str_nat n =
     (if n < 10 then [''0123456789'' ! n]
      else str_nat (n div 10) @ [''0123456789'' ! (n mod 10)])"

declare str_nat.simps [simp del]

definition str_int :: "int \<Rightarrow> string" where
  "str_int k = (if k < 0 then CHR ''-'' # str_nat (nat (- k)) else str_nat (nat k))"

subsection \<open>Widgets and tables\<close>

text \<open>The options of the "Starting Month" select box and of the scenario radio.\<close>

definition month_options :: "string list" where
  "month_options =
     [''January'', ''February'', ''March'', ''April'', ''May'', ''June'',
      ''July'', ''August'', ''September'', ''October'', ''November'', ''December'']"

definition scenario_options :: "string list" where
  "scenario_options =
     [''Normal'', ''Wetter (More Monsoon)'', ''Drier (Less Rain)'', ''Hotter'']"

definition month_map :: "(string \<times> int) list" where
  "month_map =
     [(''January'', 1), (''February'', 2), (''March'', 3), (''April'', 4),
      (''May'', 5), (''June'', 6), (''July'', 7), (''August'', 8),
      (''September'', 9), (''October'', 10), (''November'', 11), (''December'', 12)]"

definition bangladesh_climate :: "(int \<times> real \<times> real) list" where
  "bangladesh_climate =
     [(1, (19, 20)), (2, (22, 25)), (3, (26, 50)), (4, (28, 100)),
      (5, (28, 250)), (6, (28, 350)), (7, (28, 400)), (8, (28, 350)),
      (9, (27, 300)), (10, (26, 150)), (11, (23, 30)), (12, (20, 15))]"

definition climate_adjustments :: "(string \<times> real \<times> real) list" where
  "climate_adjustments =
     [(''Normal'', (1.0, 1.0)),
      (''Wetter (More Monsoon)'', (1.0, 1.3)),
      (''Drier (Less Rain)'', (1.0, 0.7)),
      (''Hotter'', (1.1, 0.9))]"

definition month_names :: "string list" where
  "month_names =
     [''Jan'', ''Feb'', ''Mar'', ''Apr'', ''May'', ''Jun'',
      ''Jul'', ''Aug'', ''Sep'', ''Oct'', ''Nov'', ''Dec'']"

subsection \<open>External libraries\<close>

text \<open>
  NumPy's global random generator: \<open>np.random.seed\<close> replaces the generator state,
  \<open>np.random.normal\<close> draws from it and advances it. The state type and both
  operations are parameters.
\<close>

record 'g np_random =
  np_seed :: "int \<Rightarrow> 'g"
  np_normal :: "real \<Rightarrow> real \<Rightarrow> 'g \<Rightarrow> real \<times> 'g"

text \<open>
  The loaded artifacts: the input scaler (applied to each row of the window), the
  network and the inverse of the output scaler. All three are parameters.
\<close>

record lstm =
  scaler_X_transform :: "real \<times> real \<Rightarrow> real \<times> real"
  model_predict :: "(real \<times> real) list \<Rightarrow> real"
  scaler_y_inverse_transform :: "real \<Rightarrow> real"

subsection \<open>Climate for the forecast period (lines 163 to 186)\<close>

record 'g climate_acc =
  months :: "string list"
  temperatures :: "real list"
  rainfalls :: "real list"
  rng :: 'g

definition climate_step ::
  "'g np_random \<Rightarrow> int \<Rightarrow> real \<Rightarrow> real \<Rightarrow> 'g climate_acc \<Rightarrow> nat \<Rightarrow> py_error + 'g climate_acc" where
  "climate_step np start_month_num temp_mult rain_mult acc i =
     (let month_num = (start_month_num + int i - 1) mod 12 + 1;
          year_offset = (start_month_num + int i - 1) div 12
      in case list_index month_names (month_num - 1) of
           Inl e \<Rightarrow> Inl e
         | Inr name \<Rightarrow>
             (let month_label = name @ '' Y'' @ str_int (year_offset + 1)
              in (case dict_lookup bangladesh_climate month_num of
                    Inl e \<Rightarrow> Inl e
                  | Inr (base_temp, base_rain) \<Rightarrow>
                      (let g0 = np_seed np (42 + int i);
                           (z1, g1) = np_normal np 1.0 0.05 g0;
                           temp = base_temp * temp_mult * z1;
                           (z2, g2) = np_normal np 1.0 0.1 g1;
                           rain = base_rain * rain_mult * z2
                       in Inr \<lparr> months = months acc @ [month_label],
                                temperatures = temperatures acc @ [temp],
                                rainfalls = rainfalls acc @ [rain],
                                rng = g2 \<rparr>))))"

definition generate_climate ::
  "'g np_random \<Rightarrow> int \<Rightarrow> real \<Rightarrow> real \<Rightarrow> nat \<Rightarrow> 'g \<Rightarrow> py_error + 'g climate_acc" where
  "generate_climate np start_month_num temp_mult rain_mult forecast_months g =
     for_each (climate_step np start_month_num temp_mult rain_mult) [0..<forecast_months]
       \<lparr> months = [], temperatures = [], rainfalls = [], rng = g \<rparr>"

subsection \<open>The last twelve months (lines 189 to 195)\<close>

definition history_step ::
  "int \<Rightarrow> (real \<times> real) list \<Rightarrow> nat \<Rightarrow> py_error + (real \<times> real) list" where
  "history_step start_month_num historical_months i =
     (let month_num = (start_month_num - int i) mod 12;
          month_num = (if month_num = 0 then 12 else month_num)
      in case dict_lookup bangladesh_climate month_num of
           Inl e \<Rightarrow> Inl e
         | Inr (base_temp, base_rain) \<Rightarrow> Inr (historical_months @ [(base_temp, base_rain)]))"

text \<open>\<open>range(12, 0, -1)\<close> counts from 12 down to 1.\<close>

definition historical :: "int \<Rightarrow> py_error + (real \<times> real) list" where
  "historical start_month_num = for_each (history_step start_month_num) (rev [1..<13]) []"

subsection \<open>The rolling forecast loop (lines 198 to 227)\<close>

record forecast_acc =
  predictions_mwh :: "real list"
  confidence_lower :: "real list"
  confidence_upper :: "real list"
  current_sequence :: "(real \<times> real) list"

text \<open>
  Lines 206 to 211: scale the window, reshape it to \<open>(1, 12, 2)\<close> (a \<open>ValueError\<close>
  unless it has twelve rows), run the network and undo the output scaling.
\<close>

definition predict_reference :: "lstm \<Rightarrow> (real \<times> real) list \<Rightarrow> py_error + real" where
  "predict_reference m current_seq =
     (let sequence_scaled = map (scaler_X_transform m) current_seq
      in if length sequence_scaled \<noteq> 12 then Inl ValueError
         else let prediction_scaled = model_predict m sequence_scaled
              in Inr (scaler_y_inverse_transform m prediction_scaled))"

definition forecast_step ::
  "lstm \<Rightarrow> real \<Rightarrow> real list \<Rightarrow> real list \<Rightarrow> forecast_acc \<Rightarrow> nat \<Rightarrow> py_error + forecast_acc" where
  "forecast_step m base_power_mw temps rains acc i =
     (case predict_reference m (current_sequence acc) of
        Inl e \<Rightarrow> Inl e
      | Inr prediction_mwh \<Rightarrow>
          (let user_monthly_mwh = base_power_mw * 730;
               scale_factor = user_monthly_mwh / 3500;
               scaled_prediction = prediction_mwh * scale_factor
           in (case list_index temps (int i) of
                 Inl e \<Rightarrow> Inl e
               | Inr t \<Rightarrow>
                   (case list_index rains (int i) of
                      Inl e \<Rightarrow> Inl e
                    | Inr r \<Rightarrow>
                        Inr \<lparr> predictions_mwh = predictions_mwh acc @ [scaled_prediction],
                              confidence_lower = confidence_lower acc @ [scaled_prediction * 0.85],
                              confidence_upper = confidence_upper acc @ [scaled_prediction * 1.15],
                              current_sequence = drop 1 (current_sequence acc) @ [(t, r)] \<rparr>))))"

definition forecast_loop ::
  "lstm \<Rightarrow> real \<Rightarrow> real list \<Rightarrow> real list \<Rightarrow> (real \<times> real) list \<Rightarrow> nat \<Rightarrow> py_error + forecast_acc" where
  "forecast_loop m base_power_mw temps rains historical_months forecast_months =
     for_each (forecast_step m base_power_mw temps rains) [0..<forecast_months]
       \<lparr> predictions_mwh = [], confidence_lower = [], confidence_upper = [],
         current_sequence = historical_months \<rparr>"

subsection \<open>The handler of the button "Generate LSTM Forecast" (lines 124 to 256)\<close>

text \<open>
  The dictionary stored as \<open>st.session_state.predictions\<close>; each field carries its
  key, prefixed with \<open>out_\<close>.
\<close>

record predictions =
  out_months :: "string list"
  out_temperatures :: "real list"
  out_rainfalls :: "real list"
  out_waterfall_mw :: "real list"
  out_geo_mw :: "real list"
  out_total_mw :: "real list"
  out_waterfall_mwh :: "real list"
  out_geo_mwh :: "real list"
  out_total_mwh :: "real list"
  out_confidence_lower :: "real list"
  out_confidence_upper :: "real list"
  out_total_annual_mwh :: real
  out_location :: string
  out_climate_scenario :: string

text \<open>Lines 234 and 235: the share of one source in the base capacity.\<close>

definition source_ratio :: "real \<Rightarrow> real \<Rightarrow> real" where
  "source_ratio source_mw base_power_mw =
     (if base_power_mw > 0 then source_mw / base_power_mw else 0.5)"

definition generate_forecast ::
  "'g np_random \<Rightarrow> lstm \<Rightarrow> string \<Rightarrow> string \<Rightarrow> nat \<Rightarrow> real \<Rightarrow> real \<Rightarrow> real \<Rightarrow> string \<Rightarrow> 'g
     \<Rightarrow> py_error + predictions" where
  "generate_forecast np m start_month climate_scenario forecast_months
                     base_power_mw waterfall_mw geo_mw location_name g =
     (case dict_lookup month_map start_month of
        Inl e \<Rightarrow> Inl e
      | Inr start_month_num \<Rightarrow>
     (case dict_lookup climate_adjustments climate_scenario of
        Inl e \<Rightarrow> Inl e
      | Inr (temp_mult, rain_mult) \<Rightarrow>
     (case generate_climate np start_month_num temp_mult rain_mult forecast_months g of
        Inl e \<Rightarrow> Inl e
      | Inr c \<Rightarrow>
     (case historical start_month_num of
        Inl e \<Rightarrow> Inl e
      | Inr historical_months \<Rightarrow>
     (case forecast_loop m base_power_mw (temperatures c) (rainfalls c)
             historical_months forecast_months of
        Inl e \<Rightarrow> Inl e
      | Inr f \<Rightarrow>
          let hours_per_month = 730;
              predictions_mw = map (\<lambda>e. e / hours_per_month) (predictions_mwh f);
              waterfall_ratio = source_ratio waterfall_mw base_power_mw;
              geo_ratio = source_ratio geo_mw base_power_mw;
              waterfall_predictions = map (\<lambda>p. p * waterfall_ratio) (predictions_mwh f);
              geo_predictions = map (\<lambda>p. p * geo_ratio) (predictions_mwh f)
          in Inr \<lparr> out_months = months c,
                   out_temperatures = temperatures c,
                   out_rainfalls = rainfalls c,
                   out_waterfall_mw = map (\<lambda>w. w / hours_per_month) waterfall_predictions,
                   out_geo_mw = map (\<lambda>g. g / hours_per_month) geo_predictions,
                   out_total_mw = predictions_mw,
                   out_waterfall_mwh = waterfall_predictions,
                   out_geo_mwh = geo_predictions,
                   out_total_mwh = predictions_mwh f,
                   out_confidence_lower = confidence_lower f,
                   out_confidence_upper = confidence_upper f,
                   out_total_annual_mwh = sum_list (predictions_mwh f),
                   out_location = location_name,
                   out_climate_scenario = climate_scenario \<rparr>)))))"

section \<open>Properties of the energy estimator\<close>

lemma P_geo_MW_calculate:
  "P_geo_MW (calculate h q t d te ge cf) =
     (if t > 50 \<and> d > 0 then thermal_power_kW t * ge / 1000 else 0)"
  by (simp add: calculate_def Let_def)

lemma E_geo_year_MWh_calculate:
  "E_geo_year_MWh (calculate h q t d te ge cf) =
     (if t > 50 \<and> d > 0 then thermal_power_kW t * ge / 1000 * 24 * 365 * cf else 0)"
  by (simp add: calculate_def Let_def)

lemma P_waterfall_MW_calculate:
  "P_waterfall_MW (calculate h q t d te ge cf) =
     (if h > 0 \<and> q > 0 then 1000 * 9.81 * q * h * te / 1000000 else 0)"
  by (simp add: calculate_def Let_def)

lemma E_waterfall_year_MWh_calculate:
  "E_waterfall_year_MWh (calculate h q t d te ge cf) =
     (if h > 0 \<and> q > 0 then 1000 * 9.81 * q * h * te / 1000000 * 24 * 365 else 0)"
  by (simp add: calculate_def Let_def)

lemma thermal_power_kW_eq: "thermal_power_kW t = 50 * 4.18 * (t - 25)"
  by (simp add: thermal_power_kW_def Let_def)

text \<open>
  Above the guard of the calculator the geothermal power is positive and strictly
  increasing in the temperature; at or below it the power is zero.
\<close>

lemma P_geo_MW_above_guard:
  assumes "0 < ge" "0 < d" "50 < t1" "t1 < t2"
  shows "0 < P_geo_MW (calculate h q t1 d te ge cf)"
    and "P_geo_MW (calculate h q t1 d te ge cf) < P_geo_MW (calculate h q t2 d te ge cf)"
  using assms by (simp_all add: P_geo_MW_calculate thermal_power_kW_eq divide_strict_right_mono)

lemma P_geo_MW_at_or_below_guard:
  "t \<le> 50 \<Longrightarrow> P_geo_MW (calculate h q t d te ge cf) = 0"
  by (simp add: P_geo_MW_calculate)

text \<open>
  C1. The claim puts the viability threshold at \<open>temperature_c \<ge> 50\<close> and asks for a
  strictly positive power there. The document validation accepts a temperature of
  exactly 50 as viable, while the calculator and the batch row, which test
  \<open>> 50\<close>, report no geothermal source and zero power for it.
\<close>

theorem geothermal_threshold_at_50:
  "pdf_has_geothermal (Some 50)
   \<and> P_geo_MW (calculate 0 0 50 3 0.9 0.15 0.85) = 0
   \<and> \<not> has_geothermal (calculate 0 0 50 3 0.9 0.15 0.85)
   \<and> fst (batch_geo 50) = 0
   \<and> thermal_power_kW 50 * 0.15 / 1000 = 0.78375"
  by (simp add: pdf_has_geothermal_def calculate_def batch_geo_def thermal_power_kW_def Let_def)

text \<open>
  C5. With positive flow rate and height, the waterfall power is
  \<open>1000 * 9.81 * Q * H * eta / 1e6\<close> MW and the annual energy is that power times
  \<open>24 * 365\<close>; for \<open>Q = 10\<close>, \<open>H = 50\<close>, \<open>eta = 0.9\<close> the power is 4.4145 MW, which is
  4.415 to three decimals.
\<close>

theorem waterfall_power_formula:
  assumes "0 < Q" and "0 < H"
  shows "P_waterfall_MW (calculate H Q t d eta ge cf) = 1000 * 9.81 * Q * H * eta / 1000000
       \<and> E_waterfall_year_MWh (calculate H Q t d eta ge cf)
           = P_waterfall_MW (calculate H Q t d eta ge cf) * 24 * 365
       \<and> has_waterfall (calculate H Q t d eta ge cf)
       \<and> P_waterfall_MW (calculate 50 10 t d 0.9 ge cf) = 4.4145
       \<and> \<bar>P_waterfall_MW (calculate 50 10 t d 0.9 ge cf) - 4.415\<bar> \<le> 0.0005"
  using assms by (simp add: calculate_def Let_def)

theorem waterfall_power_formula_witness:
  "(0::real) < 10 \<and> (0::real) < 50
   \<and> P_waterfall_MW (calculate 50 10 200 3 0.9 0.15 0.85) = 1000 * 9.81 * 10 * 50 * 0.9 / 1000000
   \<and> E_waterfall_year_MWh (calculate 50 10 200 3 0.9 0.15 0.85) = 4.4145 * 24 * 365"
  using waterfall_power_formula [where Q = 10 and H = 50 and t = 200 and d = 3
      and eta = "0.9" and ge = "0.15" and cf = "0.85"] by simp

text \<open>
  C6, as amended. Whenever the calculator's guard holds (temperature above 50 and
  positive depth), the thermal power is \<open>50 * 4.18 * (T - 25)\<close> kW, the electrical power
  is the thermal power times the conversion efficiency over 1000, and the annual energy
  is that power times \<open>24 * 365\<close> times the capacity factor. For \<open>T = 200\<close>,
  efficiency 0.15 and capacity factor 0.85 this is 36575 kW, 5.48625 MW and
  40850.6175 MWh a year.
\<close>

theorem geothermal_power_formula:
  assumes "50 < T" and "0 < d"
  shows "thermal_power_kW T = 50 * 4.18 * (T - 25)
       \<and> P_geo_MW (calculate h q T d te ge cf) = thermal_power_kW T * ge / 1000
       \<and> E_geo_year_MWh (calculate h q T d te ge cf)
           = P_geo_MW (calculate h q T d te ge cf) * 24 * 365 * cf
       \<and> thermal_power_kW 200 = 36575
       \<and> P_geo_MW (calculate h q 200 3 te 0.15 0.85) = 5.48625
       \<and> E_geo_year_MWh (calculate h q 200 3 te 0.15 0.85) = 40850.6175"
  using assms by (simp add: calculate_def thermal_power_kW_def Let_def)

theorem geothermal_power_formula_witness:
  "(50::real) < 200 \<and> (0::real) < 3
   \<and> P_geo_MW (calculate 50 10 200 3 0.9 0.15 0.85) = 36575 * 0.15 / 1000
   \<and> \<bar>P_geo_MW (calculate 50 10 200 3 0.9 0.15 0.85) - 5.486\<bar> \<le> 0.0005
   \<and> \<bar>E_geo_year_MWh (calculate 50 10 200 3 0.9 0.15 0.85) - 40851\<bar> \<le> 0.5"
  using geothermal_power_formula [where T = 200 and d = 3 and h = 50 and q = 10
      and te = "0.9" and ge = "0.15" and cf = "0.85"] by simp

text \<open>
  The annual energy of the scenario \<open>T = 200\<close>, efficiency 0.15, capacity factor 0.85
  is 40850.6175 MWh: more than 17 MWh away from the 40,868 MWh of the claim.
\<close>

theorem geothermal_annual_energy_counterexample:
  "E_geo_year_MWh (calculate 50 10 200 3 0.9 0.15 0.85) = 40850.6175
   \<and> \<not> \<bar>E_geo_year_MWh (calculate 50 10 200 3 0.9 0.15 0.85) - 40868\<bar> \<le> 17"
  by (simp add: calculate_def thermal_power_kW_def Let_def)

text \<open>
  C10. The drilling depth enters the geothermal result through the guard \<open>depth > 0\<close>
  only: two positive depths give the same power and the same annual energy.
\<close>

theorem geothermal_independent_of_depth:
  assumes "0 < d1" and "0 < d2"
  shows "P_geo_MW (calculate h q T d1 te ge cf) = P_geo_MW (calculate h q T d2 te ge cf)
       \<and> E_geo_year_MWh (calculate h q T d1 te ge cf)
           = E_geo_year_MWh (calculate h q T d2 te ge cf)"
  using assms by (simp add: P_geo_MW_calculate E_geo_year_MWh_calculate)

theorem geothermal_independent_of_depth_witness:
  "(0::real) < 0.5 \<and> (0::real) < 10
   \<and> P_geo_MW (calculate 50 10 200 0.5 0.9 0.15 0.85)
       = P_geo_MW (calculate 50 10 200 10 0.9 0.15 0.85)
   \<and> E_geo_year_MWh (calculate 50 10 200 0.5 0.9 0.15 0.85)
       = E_geo_year_MWh (calculate 50 10 200 10 0.9 0.15 0.85)"
  using geothermal_independent_of_depth [where ?d1.0 = "0.5" and ?d2.0 = 10 and h = 50 and q = 10
      and T = 200 and te = "0.9" and ge = "0.15" and cf = "0.85"] by simp

section \<open>Properties of the forecast page\<close>

lemma for_each_snoc:
  "for_each body (xs @ [x]) s =
     (case for_each body xs s of Inl e \<Rightarrow> Inl e | Inr s' \<Rightarrow> body s' x)"
  by (induction xs arbitrary: s) (auto split: sum.splits)

lemma str_nat_digit: "n < 10 \<Longrightarrow> str_nat n = [''0123456789'' ! n]"
  by (simp add: str_nat.simps)

lemma month_map_ok:
  assumes "start_month \<in> set month_options"
  shows "\<exists>n. dict_lookup month_map start_month = Inr n \<and> 1 \<le> n \<and> n \<le> 12"
proof -
  from assms have "start_month = ''January'' \<or> start_month = ''February''
      \<or> start_month = ''March'' \<or> start_month = ''April'' \<or> start_month = ''May''
      \<or> start_month = ''June'' \<or> start_month = ''July'' \<or> start_month = ''August''
      \<or> start_month = ''September'' \<or> start_month = ''October''
      \<or> start_month = ''November'' \<or> start_month = ''December''"
    unfolding month_options_def by (simp only: set_simps insert_iff empty_iff simp_thms)
  then show ?thesis
    by (elim disjE) (simp_all add: month_map_def dict_lookup_def)
qed

lemma scenario_ok:
  assumes "sc \<in> set scenario_options"
  shows "\<exists>p. dict_lookup climate_adjustments sc = Inr p"
proof -
  from assms have "sc = ''Normal'' \<or> sc = ''Wetter (More Monsoon)''
      \<or> sc = ''Drier (Less Rain)'' \<or> sc = ''Hotter''"
    unfolding scenario_options_def by (simp only: set_simps insert_iff empty_iff simp_thms)
  then have "\<not> isl (dict_lookup climate_adjustments sc)"
    by (elim disjE) (simp_all add: climate_adjustments_def dict_lookup_def)
  then show ?thesis by (cases "dict_lookup climate_adjustments sc") simp_all
qed

lemma month_num_cases:
  assumes "1 \<le> (n::int)" "n \<le> 12"
  shows "n \<in> {1, 2, 3, 4, 5, 6, 7, 8, 9, 10, 11, 12}"
  using assms by (simp only: insert_iff empty_iff) arith

lemma climate_lookup_ok:
  assumes "1 \<le> n" "n \<le> 12"
  shows "\<exists>p. dict_lookup bangladesh_climate n = Inr p"
proof -
  have "\<not> isl (dict_lookup bangladesh_climate n)"
    using month_num_cases [OF assms]
    by (elim insertE emptyE) (simp_all add: bangladesh_climate_def dict_lookup_def)
  then show ?thesis by (cases "dict_lookup bangladesh_climate n") simp_all
qed

lemma month_name_ok:
  assumes "0 \<le> k" "k < 12"
  shows "list_index month_names k = Inr (month_names ! nat k)"
  using assms by (simp add: list_index_def month_names_def)

lemma list_index_nat: "i < length xs \<Longrightarrow> list_index xs (int i) = Inr (xs ! i)"
  by (simp add: list_index_def)

text \<open>One step of the climate loop.\<close>

lemma climate_step_ok:
  "\<exists>acc'. climate_step np s tm rm acc i = Inr acc'
     \<and> months acc' = months acc @
         [month_names ! nat ((s + int i - 1) mod 12) @ '' Y'' @ str_int ((s + int i - 1) div 12 + 1)]
     \<and> length (temperatures acc') = Suc (length (temperatures acc))
     \<and> length (rainfalls acc') = Suc (length (rainfalls acc))"
proof -
  let ?k = "(s + int i - 1) mod 12"
  have k: "0 \<le> ?k" "?k < 12" by simp_all
  then have r: "1 \<le> ?k + 1" "?k + 1 \<le> 12" by simp_all
  obtain bt br where l: "dict_lookup bangladesh_climate (?k + 1) = Inr (bt, br)"
    using climate_lookup_ok [OF r] by fastforce
  note n = month_name_ok [OF k]
  show ?thesis
    by (simp add: climate_step_def Let_def n l split: prod.splits)
qed

lemma climate_step_rng:
  "climate_step np s tm rm (acc\<lparr>rng := g'\<rparr>) i = climate_step np s tm rm acc i"
  by (simp add: climate_step_def Let_def split: sum.splits prod.splits)

lemma climate_loop_ok:
  "\<exists>acc'. for_each (climate_step np s tm rm) [0..<n] acc = Inr acc'
     \<and> months acc' = months acc @
         map (\<lambda>i. month_names ! nat ((s + int i - 1) mod 12) @ '' Y''
                    @ str_int ((s + int i - 1) div 12 + 1)) [0..<n]
     \<and> length (temperatures acc') = length (temperatures acc) + n
     \<and> length (rainfalls acc') = length (rainfalls acc) + n"
proof (induction n)
  case 0
  show ?case by simp
next
  case (Suc n)
  then obtain a where a: "for_each (climate_step np s tm rm) [0..<n] acc = Inr a"
    and m: "months a = months acc @
         map (\<lambda>i. month_names ! nat ((s + int i - 1) mod 12) @ '' Y''
                    @ str_int ((s + int i - 1) div 12 + 1)) [0..<n]"
    and t: "length (temperatures a) = length (temperatures acc) + n"
    and r: "length (rainfalls a) = length (rainfalls acc) + n"
    by blast
  from climate_step_ok [of np s tm rm a n]
  obtain a' where a': "climate_step np s tm rm a n = Inr a'"
    and m': "months a' = months a @
         [month_names ! nat ((s + int n - 1) mod 12) @ '' Y'' @ str_int ((s + int n - 1) div 12 + 1)]"
    and t': "length (temperatures a') = Suc (length (temperatures a))"
    and r': "length (rainfalls a') = Suc (length (rainfalls a))"
    by blast
  have "for_each (climate_step np s tm rm) [0..<Suc n] acc = Inr a'"
    by (simp add: for_each_snoc a a')
  then show ?case using m m' t t' r r' by simp
qed

lemma climate_loop_rng:
  "xs \<noteq> [] \<Longrightarrow>
     for_each (climate_step np s tm rm) xs (acc\<lparr>rng := g'\<rparr>)
       = for_each (climate_step np s tm rm) xs acc"
  by (cases xs) (simp_all add: climate_step_rng)

lemma history_step_ok: "\<exists>p. history_step s h i = Inr (h @ [p])"
proof -
  let ?n = "if (s - int i) mod 12 = 0 then 12 else (s - int i) mod 12"
  have "0 \<le> (s - int i) mod 12" "(s - int i) mod 12 < 12" by simp_all
  then have r: "1 \<le> ?n" "?n \<le> 12" by auto
  obtain p where "dict_lookup bangladesh_climate ?n = Inr p"
    using climate_lookup_ok [OF r] by blast
  then show ?thesis
    unfolding history_step_def Let_def by (cases p) simp
qed

lemma history_loop_ok:
  "\<exists>h'. for_each (history_step s) xs h = Inr h' \<and> length h' = length h + length xs"
proof (induction xs arbitrary: h)
  case Nil
  show ?case by simp
next
  case (Cons i xs)
  obtain p where p: "history_step s h i = Inr (h @ [p])"
    using history_step_ok by blast
  from Cons [of "h @ [p]"] show ?case by (auto simp: p)
qed

lemma historical_ok: "\<exists>w0. historical s = Inr w0 \<and> length w0 = 12"
  using history_loop_ok [of s "rev [1..<13]" "[]"] by (simp add: historical_def)

text \<open>The rolling loop.\<close>

lemma predict_reference_ok:
  "length w = 12 \<Longrightarrow>
     predict_reference m w
       = Inr (scaler_y_inverse_transform m (model_predict m (map (scaler_X_transform m) w)))"
  by (simp add: predict_reference_def Let_def)

lemma drop_snoc_within: "n \<le> length xs \<Longrightarrow> drop n (xs @ [y]) = drop n xs @ [y]"
  by simp

lemma window_slide:
  assumes "length w0 = 12" "k < length fwd"
  shows "drop 1 (drop k (w0 @ take k fwd)) @ [fwd ! k] = drop (Suc k) (w0 @ take (Suc k) fwd)"
proof -
  have t: "take (Suc k) fwd = take k fwd @ [fwd ! k]"
    using assms(2) by (simp add: take_Suc_conv_app_nth)
  have l: "Suc k \<le> length (w0 @ take k fwd)"
    using assms by simp
  have "drop (Suc k) (w0 @ take (Suc k) fwd) = drop (Suc k) ((w0 @ take k fwd) @ [fwd ! k])"
    by (simp only: t append_assoc)
  also have "\<dots> = drop (Suc k) (w0 @ take k fwd) @ [fwd ! k]"
    by (rule drop_snoc_within [OF l])
  also have "drop (Suc k) (w0 @ take k fwd) = drop 1 (drop k (w0 @ take k fwd))"
    by (simp only: drop_drop) simp
  finally show ?thesis by (rule sym)
qed

lemma forecast_step_ok:
  assumes "length (current_sequence a) = 12" "k < length temps" "k < length rains"
  shows "forecast_step m cap temps rains a k =
     Inr \<lparr> predictions_mwh = predictions_mwh a @
              [scaler_y_inverse_transform m (model_predict m
                 (map (scaler_X_transform m) (current_sequence a))) * (cap * 730 / 3500)],
           confidence_lower = confidence_lower a @
              [scaler_y_inverse_transform m (model_predict m
                 (map (scaler_X_transform m) (current_sequence a))) * (cap * 730 / 3500) * 0.85],
           confidence_upper = confidence_upper a @
              [scaler_y_inverse_transform m (model_predict m
                 (map (scaler_X_transform m) (current_sequence a))) * (cap * 730 / 3500) * 1.15],
           current_sequence = drop 1 (current_sequence a) @ [(temps ! k, rains ! k)] \<rparr>"
  by (simp add: forecast_step_def Let_def predict_reference_ok [OF assms(1)]
        list_index_nat [OF assms(2)] list_index_nat [OF assms(3)])

lemma forecast_loop_ok:
  assumes "length w0 = 12" "k \<le> length temps" "k \<le> length rains"
  shows "\<exists>acc. forecast_loop m cap temps rains w0 k = Inr acc
     \<and> current_sequence acc = drop k (w0 @ take k (zip temps rains))
     \<and> predictions_mwh acc =
         map (\<lambda>i. scaler_y_inverse_transform m (model_predict m
                     (map (scaler_X_transform m) (drop i (w0 @ take i (zip temps rains)))))
                   * (cap * 730 / 3500)) [0..<k]
     \<and> confidence_lower acc = map (\<lambda>p. p * 0.85) (predictions_mwh acc)
     \<and> confidence_upper acc = map (\<lambda>p. p * 1.15) (predictions_mwh acc)"
  using assms(2,3)
proof (induction k)
  case 0
  show ?case by (simp add: forecast_loop_def)
next
  case (Suc k)
  let ?fwd = "zip temps rains"
  let ?ref = "\<lambda>i. scaler_y_inverse_transform m (model_predict m
                     (map (scaler_X_transform m) (drop i (w0 @ take i ?fwd))))
                   * (cap * 730 / 3500)"
  from Suc obtain a where a: "forecast_loop m cap temps rains w0 k = Inr a"
    and w: "current_sequence a = drop k (w0 @ take k ?fwd)"
    and p: "predictions_mwh a = map ?ref [0..<k]"
    and lo: "confidence_lower a = map (\<lambda>p. p * 0.85) (predictions_mwh a)"
    and up: "confidence_upper a = map (\<lambda>p. p * 1.15) (predictions_mwh a)"
    by auto
  have kt: "k < length temps" and kr: "k < length rains" using Suc.prems by simp_all
  then have kf: "k < length ?fwd" by simp
  have len: "length (current_sequence a) = 12"
    unfolding w using assms(1) kf by simp
  let ?p = "scaler_y_inverse_transform m (model_predict m
                 (map (scaler_X_transform m) (current_sequence a))) * (cap * 730 / 3500)"
  define a' where "a' =
     \<lparr> predictions_mwh = predictions_mwh a @ [?p],
       confidence_lower = confidence_lower a @ [?p * 0.85],
       confidence_upper = confidence_upper a @ [?p * 1.15],
       current_sequence = drop 1 (current_sequence a) @ [(temps ! k, rains ! k)] \<rparr>"
  have step: "forecast_step m cap temps rains a k = Inr a'"
    unfolding a'_def by (rule forecast_step_ok [OF len kt kr])
  have pk: "?p = ?ref k" unfolding w ..
  have p': "predictions_mwh a' = predictions_mwh a @ [?ref k]"
    unfolding pk [symmetric] by (simp add: a'_def)
  have lo': "confidence_lower a' = confidence_lower a @ [?ref k * 0.85]"
    unfolding pk [symmetric] by (simp add: a'_def)
  have up': "confidence_upper a' = confidence_upper a @ [?ref k * 1.15]"
    unfolding pk [symmetric] by (simp add: a'_def)
  have w': "current_sequence a' = drop 1 (current_sequence a) @ [(temps ! k, rains ! k)]"
    by (simp add: a'_def)
  have run: "forecast_loop m cap temps rains w0 (Suc k) = Inr a'"
    using a step by (simp add: forecast_loop_def for_each_snoc)
  have nth: "?fwd ! k = (temps ! k, rains ! k)"
    using kt kr by simp
  have slide: "current_sequence a' = drop (Suc k) (w0 @ take (Suc k) ?fwd)"
    unfolding w' w nth [symmetric] by (rule window_slide [OF assms(1) kf])
  have "predictions_mwh a' = map ?ref [0..<Suc k]"
    unfolding p' p by simp
  moreover have "confidence_lower a' = map (\<lambda>p. p * 0.85) (predictions_mwh a')"
    unfolding lo' p' lo by simp
  moreover have "confidence_upper a' = map (\<lambda>p. p * 1.15) (predictions_mwh a')"
    unfolding up' p' up by simp
  ultimately show ?case
    using run slide by blast
qed

text \<open>The whole handler.\<close>

lemma generate_climate_ok:
  "\<exists>c. generate_climate np s tm rm n g = Inr c
     \<and> months c = map (\<lambda>i. month_names ! nat ((s + int i - 1) mod 12) @ '' Y''
                          @ str_int ((s + int i - 1) div 12 + 1)) [0..<n]
     \<and> length (temperatures c) = n
     \<and> length (rainfalls c) = n"
  using climate_loop_ok [of np s tm rm n "\<lparr> months = [], temperatures = [], rainfalls = [], rng = g \<rparr>"]
  by (simp add: generate_climate_def)

lemma generate_climate_rng:
  assumes "n \<noteq> 0"
  shows "generate_climate np s tm rm n g1 = generate_climate np s tm rm n g2"
proof -
  have "[0..<n] \<noteq> []" using assms by simp
  from climate_loop_rng [OF this, where np = np and s = s and tm = tm and rm = rm
      and acc = "\<lparr> months = [], temperatures = [], rainfalls = [], rng = g2 \<rparr>" and g' = g1]
  show ?thesis by (simp add: generate_climate_def)
qed

lemma generate_forecast_run:
  assumes "start_month \<in> set month_options" and "sc \<in> set scenario_options"
  shows "\<exists>s w0 r f.
       dict_lookup month_map start_month = Inr s
     \<and> historical s = Inr w0 \<and> length w0 = 12
     \<and> generate_forecast np m start_month sc n cap w_mw g_mw loc g = Inr r
     \<and> out_months r = map (\<lambda>i. month_names ! nat ((s + int i - 1) mod 12) @ '' Y''
                          @ str_int ((s + int i - 1) div 12 + 1)) [0..<n]
     \<and> length (out_temperatures r) = n \<and> length (out_rainfalls r) = n
     \<and> forecast_loop m cap (out_temperatures r) (out_rainfalls r) w0 n = Inr f
     \<and> out_total_mwh r = predictions_mwh f
     \<and> out_total_mw r = map (\<lambda>e. e / 730) (predictions_mwh f)
     \<and> out_waterfall_mwh r = map (\<lambda>p. p * source_ratio w_mw cap) (predictions_mwh f)
     \<and> out_geo_mwh r = map (\<lambda>p. p * source_ratio g_mw cap) (predictions_mwh f)
     \<and> out_confidence_lower r = confidence_lower f
     \<and> out_confidence_upper r = confidence_upper f
     \<and> out_total_annual_mwh r = sum_list (predictions_mwh f)"
proof -
  obtain s where s: "dict_lookup month_map start_month = Inr s"
    using month_map_ok [OF assms(1)] by blast
  obtain tm rm where a: "dict_lookup climate_adjustments sc = Inr (tm, rm)"
    using scenario_ok [OF assms(2)] by fastforce
  obtain c where c: "generate_climate np s tm rm n g = Inr c"
    and cm: "months c = map (\<lambda>i. month_names ! nat ((s + int i - 1) mod 12) @ '' Y''
                          @ str_int ((s + int i - 1) div 12 + 1)) [0..<n]"
    and ct: "length (temperatures c) = n" and cr: "length (rainfalls c) = n"
    using generate_climate_ok [of np s tm rm n g] by blast
  obtain w0 where h: "historical s = Inr w0" and hl: "length w0 = 12"
    using historical_ok [of s] by blast
  obtain f where f: "forecast_loop m cap (temperatures c) (rainfalls c) w0 n = Inr f"
    using forecast_loop_ok [OF hl, of n "temperatures c" "rainfalls c" m cap] ct cr by auto
  have "\<exists>r. generate_forecast np m start_month sc n cap w_mw g_mw loc g = Inr r
     \<and> out_months r = months c
     \<and> out_temperatures r = temperatures c
     \<and> out_rainfalls r = rainfalls c
     \<and> out_total_mwh r = predictions_mwh f
     \<and> out_total_mw r = map (\<lambda>e. e / 730) (predictions_mwh f)
     \<and> out_waterfall_mwh r = map (\<lambda>p. p * source_ratio w_mw cap) (predictions_mwh f)
     \<and> out_geo_mwh r = map (\<lambda>p. p * source_ratio g_mw cap) (predictions_mwh f)
     \<and> out_confidence_lower r = confidence_lower f
     \<and> out_confidence_upper r = confidence_upper f
     \<and> out_total_annual_mwh r = sum_list (predictions_mwh f)"
    by (simp add: generate_forecast_def s a c h f Let_def)
  then obtain r where "generate_forecast np m start_month sc n cap w_mw g_mw loc g = Inr r"
     "out_months r = months c"
     "out_temperatures r = temperatures c"
     "out_rainfalls r = rainfalls c"
     "out_total_mwh r = predictions_mwh f"
     "out_total_mw r = map (\<lambda>e. e / 730) (predictions_mwh f)"
     "out_waterfall_mwh r = map (\<lambda>p. p * source_ratio w_mw cap) (predictions_mwh f)"
     "out_geo_mwh r = map (\<lambda>p. p * source_ratio g_mw cap) (predictions_mwh f)"
     "out_confidence_lower r = confidence_lower f"
     "out_confidence_upper r = confidence_upper f"
     "out_total_annual_mwh r = sum_list (predictions_mwh f)"
    by blast
  with s h hl cm ct cr f show ?thesis
    by (intro exI [of _ s] exI [of _ w0] exI [of _ r] exI [of _ f]) simp
qed

text \<open>
  C2. With a base capacity of 0 MW the handler still produces a forecast for every
  start month and scenario the widgets offer: every entry of the energy series is 0,
  and both source ratios take the fallback value 0.5 instead of dividing by the base
  capacity.
\<close>

theorem zero_capacity_forecast:
  assumes "start_month \<in> set month_options" and "sc \<in> set scenario_options"
  shows "\<exists>r. generate_forecast np m start_month sc n 0 w_mw g_mw loc g = Inr r
     \<and> out_total_mwh r = replicate n 0
     \<and> source_ratio w_mw 0 = 0.5 \<and> source_ratio g_mw 0 = 0.5
     \<and> out_waterfall_mwh r = map (\<lambda>p. p * 0.5) (out_total_mwh r)
     \<and> out_geo_mwh r = map (\<lambda>p. p * 0.5) (out_total_mwh r)"
proof -
  from generate_forecast_run [OF assms, where n = n and m = m and cap = 0 and np = np
      and w_mw = w_mw and g_mw = g_mw and loc = loc and g = g]
  obtain s w0 r f where hl: "length w0 = 12"
    and ct: "length (out_temperatures r) = n" and cr: "length (out_rainfalls r) = n"
    and f: "forecast_loop m 0 (out_temperatures r) (out_rainfalls r) w0 n = Inr f"
    and r: "generate_forecast np m start_month sc n 0 w_mw g_mw loc g = Inr r"
    and t: "out_total_mwh r = predictions_mwh f"
    and wr: "out_waterfall_mwh r = map (\<lambda>p. p * source_ratio w_mw 0) (predictions_mwh f)"
    and gr: "out_geo_mwh r = map (\<lambda>p. p * source_ratio g_mw 0) (predictions_mwh f)"
    by blast
  have z: "predictions_mwh f = replicate n 0"
    using forecast_loop_ok [OF hl, of n "out_temperatures r" "out_rainfalls r" m 0] ct cr f
    by (simp add: map_replicate_const)
  have sr: "source_ratio x 0 = 0.5" for x by (simp add: source_ratio_def)
  show ?thesis
    using r t wr gr z by (simp add: sr)
qed

theorem zero_capacity_forecast_witness:
  "''November'' \<in> set month_options \<and> ''Normal'' \<in> set scenario_options
   \<and> (\<exists>r. generate_forecast
          \<lparr> np_seed = (\<lambda>n. n), np_normal = (\<lambda>mu sd g. (mu, g + 1)) \<rparr>
          \<lparr> scaler_X_transform = (\<lambda>x. x), model_predict = (\<lambda>w. sum_list (map fst w)),
            scaler_y_inverse_transform = (\<lambda>y. y * 10) \<rparr>
          ''November'' ''Normal'' 3 0 0 0 ''Dhaka'' (0::int) = Inr r
        \<and> out_total_mwh r = replicate 3 0
        \<and> out_waterfall_mwh r = map (\<lambda>p. p * 0.5) (out_total_mwh r))"
proof -
  have a: "''November'' \<in> set month_options" by (simp add: month_options_def)
  have b: "''Normal'' \<in> set scenario_options" by (simp add: scenario_options_def)
  show ?thesis
    using a b zero_capacity_forecast [OF a b, where n = 3 and w_mw = 0 and g_mw = 0
        and loc = "''Dhaka''" and g = "0::int"
        and np = "\<lparr> np_seed = (\<lambda>n. n), np_normal = (\<lambda>mu sd g. (mu, g + 1)) \<rparr>"
        and m = "\<lparr> scaler_X_transform = (\<lambda>x. x), model_predict = (\<lambda>w. sum_list (map fst w)),
            scaler_y_inverse_transform = (\<lambda>y. y * 10) \<rparr>"]
    by blast
qed

text \<open>
  C3. In every forecast the energy of step \<open>i\<close> is the reference prediction of the
  network on the window of that step, times \<open>capacity_mw * 730 / 3500\<close>, and the
  reported power is that energy divided by 730.
\<close>

theorem forecast_rescaling:
  assumes "start_month \<in> set month_options" and "sc \<in> set scenario_options"
  shows "\<exists>s w0 r.
       dict_lookup month_map start_month = Inr s \<and> historical s = Inr w0
     \<and> generate_forecast np m start_month sc n capacity_mw w_mw g_mw loc g = Inr r
     \<and> out_total_mwh r =
         map (\<lambda>i. scaler_y_inverse_transform m (model_predict m (map (scaler_X_transform m)
                     (drop i (w0 @ take i (zip (out_temperatures r) (out_rainfalls r))))))
                   * (capacity_mw * 730 / 3500)) [0..<n]
     \<and> out_total_mw r = map (\<lambda>scaled_prediction. scaled_prediction / 730) (out_total_mwh r)"
proof -
  from generate_forecast_run [OF assms, where n = n and m = m and cap = capacity_mw and np = np
      and w_mw = w_mw and g_mw = g_mw and loc = loc and g = g]
  obtain s w0 r f where s: "dict_lookup month_map start_month = Inr s"
    and h: "historical s = Inr w0" and hl: "length w0 = 12"
    and ct: "length (out_temperatures r) = n" and cr: "length (out_rainfalls r) = n"
    and f: "forecast_loop m capacity_mw (out_temperatures r) (out_rainfalls r) w0 n = Inr f"
    and r: "generate_forecast np m start_month sc n capacity_mw w_mw g_mw loc g = Inr r"
    and t: "out_total_mwh r = predictions_mwh f"
    and p: "out_total_mw r = map (\<lambda>e. e / 730) (predictions_mwh f)"
    by blast
  have "predictions_mwh f =
         map (\<lambda>i. scaler_y_inverse_transform m (model_predict m (map (scaler_X_transform m)
                     (drop i (w0 @ take i (zip (out_temperatures r) (out_rainfalls r))))))
                   * (capacity_mw * 730 / 3500)) [0..<n]"
    using forecast_loop_ok [OF hl, of n "out_temperatures r" "out_rainfalls r" m capacity_mw]
      ct cr f by simp
  with s h r t p show ?thesis
    by (intro exI [of _ s] exI [of _ w0] exI [of _ r]) simp
qed

theorem forecast_rescaling_witness:
  "''March'' \<in> set month_options \<and> ''Normal'' \<in> set scenario_options
   \<and> (\<exists>w0 r. historical 3 = Inr w0
        \<and> generate_forecast
          \<lparr> np_seed = (\<lambda>n. n), np_normal = (\<lambda>mu sd g. (mu, g + 1)) \<rparr>
          \<lparr> scaler_X_transform = (\<lambda>x. x), model_predict = (\<lambda>w. sum_list (map fst w)),
            scaler_y_inverse_transform = (\<lambda>y. y * 10) \<rparr>
          ''March'' ''Normal'' 2 7 4 3 ''Sylhet'' (0::int) = Inr r
        \<and> out_total_mwh r =
            [sum_list (map fst w0) * 10 * (7 * 730 / 3500),
             sum_list (map fst (drop 1 (w0 @ take 1 (zip (out_temperatures r) (out_rainfalls r)))))
               * 10 * (7 * 730 / 3500)]
        \<and> out_total_mw r = map (\<lambda>e. e / 730) (out_total_mwh r))"
proof -
  have a: "''March'' \<in> set month_options" by (simp add: month_options_def)
  have b: "''Normal'' \<in> set scenario_options" by (simp add: scenario_options_def)
  have j: "dict_lookup month_map ''March'' = Inr 3"
    by (simp add: dict_lookup_def month_map_def)
  have u: "[0..<2] = [0, Suc 0]" by code_simp
  from forecast_rescaling [OF a b, where n = 2 and capacity_mw = 7 and w_mw = 4 and g_mw = 3
        and loc = "''Sylhet''" and g = "0::int"
        and np = "\<lparr> np_seed = (\<lambda>n. n), np_normal = (\<lambda>mu sd g. (mu, g + 1)) \<rparr>"
        and m = "\<lparr> scaler_X_transform = (\<lambda>x. x), model_predict = (\<lambda>w. sum_list (map fst w)),
            scaler_y_inverse_transform = (\<lambda>y. y * 10) \<rparr>"]
  obtain s w0 r where s: "dict_lookup month_map ''March'' = Inr s"
    and h: "historical s = Inr w0"
    and r: "generate_forecast
          \<lparr> np_seed = (\<lambda>n. n), np_normal = (\<lambda>mu sd g. (mu, g + 1)) \<rparr>
          \<lparr> scaler_X_transform = (\<lambda>x. x), model_predict = (\<lambda>w. sum_list (map fst w)),
            scaler_y_inverse_transform = (\<lambda>y. y * 10) \<rparr>
          ''March'' ''Normal'' 2 7 4 3 ''Sylhet'' (0::int) = Inr r"
    and t: "out_total_mwh r =
         map (\<lambda>i. scaler_y_inverse_transform \<lparr> scaler_X_transform = (\<lambda>x. x), model_predict = (\<lambda>w. sum_list (map fst w)),
            scaler_y_inverse_transform = (\<lambda>y. y * 10) \<rparr>
               (model_predict \<lparr> scaler_X_transform = (\<lambda>x. x), model_predict = (\<lambda>w. sum_list (map fst w)),
            scaler_y_inverse_transform = (\<lambda>y. y * 10) \<rparr>
                 (map (scaler_X_transform \<lparr> scaler_X_transform = (\<lambda>x. x), model_predict = (\<lambda>w. sum_list (map fst w)),
            scaler_y_inverse_transform = (\<lambda>y. y * 10) \<rparr>)
                     (drop i (w0 @ take i (zip (out_temperatures r) (out_rainfalls r))))))
                   * (7 * 730 / 3500)) [0..<2]"
    and p: "out_total_mw r = map (\<lambda>e. e / 730) (out_total_mwh r)"
    by blast
  from s j have s3: "s = 3" by simp
  have t': "out_total_mwh r =
            [sum_list (map fst w0) * 10 * (7 * 730 / 3500),
             sum_list (map fst (drop 1 (w0 @ take 1 (zip (out_temperatures r) (out_rainfalls r)))))
               * 10 * (7 * 730 / 3500)]"
    unfolding t u by simp
  from a b h [unfolded s3] r t' p show ?thesis by blast
qed

text \<open>
  C4. After any number \<open>k\<close> of steps of the rolling loop the window has exactly twelve
  rows: the twelve historical months with the first \<open>k\<close> forward climate points
  appended and the \<open>k\<close> oldest rows dropped. The network and its predictions do not
  occur in it.
\<close>

theorem rolling_window_invariant:
  assumes "k \<le> length temps" and "k \<le> length rains"
  shows "\<exists>w0 acc.
       historical s = Inr w0 \<and> length w0 = 12
     \<and> forecast_loop m cap temps rains w0 k = Inr acc
     \<and> length (current_sequence acc) = 12
     \<and> current_sequence acc = drop k (w0 @ take k (zip temps rains))"
proof -
  obtain w0 where h: "historical s = Inr w0" and hl: "length w0 = 12"
    using historical_ok [of s] by blast
  obtain acc where a: "forecast_loop m cap temps rains w0 k = Inr acc"
    and w: "current_sequence acc = drop k (w0 @ take k (zip temps rains))"
    using forecast_loop_ok [OF hl assms, of m cap] by blast
  have "length (current_sequence acc) = 12"
    unfolding w using hl assms by simp
  with h hl a w show ?thesis by blast
qed

theorem rolling_window_invariant_witness:
  "(2::nat) \<le> length [23, 20, 19 :: real] \<and> (2::nat) \<le> length [30, 15, 20 :: real]
   \<and> (\<exists>w0 acc. historical 11 = Inr w0 \<and> length w0 = 12
        \<and> forecast_loop
             \<lparr> scaler_X_transform = (\<lambda>x. x), model_predict = (\<lambda>w. sum_list (map fst w)),
            scaler_y_inverse_transform = (\<lambda>y. y * 10) \<rparr>
             5 [23, 20, 19] [30, 15, 20] w0 2 = Inr acc
        \<and> length (current_sequence acc) = 12
        \<and> current_sequence acc = drop 2 (w0 @ [(23, 30), (20, 15)]))"
proof -
  have a: "(2::nat) \<le> length [23, 20, 19 :: real]" by simp
  have b: "(2::nat) \<le> length [30, 15, 20 :: real]" by simp
  have z: "take 2 (zip [23, 20, 19 :: real] [30, 15, 20 :: real]) = [(23, 30), (20, 15)]"
    by (simp add: numeral_2_eq_2)
  from rolling_window_invariant [OF a b, where s = 11 and cap = 5
        and m = "\<lparr> scaler_X_transform = (\<lambda>x. x), model_predict = (\<lambda>w. sum_list (map fst w)),
            scaler_y_inverse_transform = (\<lambda>y. y * 10) \<rparr>"]
  show ?thesis
    unfolding z using a b by blast
qed

text \<open>
  C7. In every forecast the lower and upper confidence series are 0.85 and 1.15 times
  the energy series, entry by entry.
\<close>

theorem confidence_band:
  assumes "start_month \<in> set month_options" and "sc \<in> set scenario_options"
  shows "\<exists>r. generate_forecast np m start_month sc n cap w_mw g_mw loc g = Inr r
     \<and> length (out_total_mwh r) = n
     \<and> out_confidence_lower r = map (\<lambda>predicted. 0.85 * predicted) (out_total_mwh r)
     \<and> out_confidence_upper r = map (\<lambda>predicted. 1.15 * predicted) (out_total_mwh r)"
proof -
  from generate_forecast_run [OF assms, where n = n and m = m and cap = cap and np = np
      and w_mw = w_mw and g_mw = g_mw and loc = loc and g = g]
  obtain s w0 r f where hl: "length w0 = 12"
    and ct: "length (out_temperatures r) = n" and cr: "length (out_rainfalls r) = n"
    and f: "forecast_loop m cap (out_temperatures r) (out_rainfalls r) w0 n = Inr f"
    and r: "generate_forecast np m start_month sc n cap w_mw g_mw loc g = Inr r"
    and t: "out_total_mwh r = predictions_mwh f"
    and lo: "out_confidence_lower r = confidence_lower f"
    and up: "out_confidence_upper r = confidence_upper f"
    by blast
  from forecast_loop_ok [OF hl, of n "out_temperatures r" "out_rainfalls r" m cap] ct cr f
  have "length (predictions_mwh f) = n"
    and "confidence_lower f = map (\<lambda>p. p * 0.85) (predictions_mwh f)"
    and "confidence_upper f = map (\<lambda>p. p * 1.15) (predictions_mwh f)"
    by simp_all
  then have "length (out_total_mwh r) = n"
    and "out_confidence_lower r = map (\<lambda>predicted. 0.85 * predicted) (out_total_mwh r)"
    and "out_confidence_upper r = map (\<lambda>predicted. 1.15 * predicted) (out_total_mwh r)"
    by (simp_all add: t lo up mult.commute)
  with r show ?thesis by blast
qed

theorem confidence_band_witness:
  "''June'' \<in> set month_options \<and> ''Wetter (More Monsoon)'' \<in> set scenario_options
   \<and> (\<exists>r. generate_forecast
          \<lparr> np_seed = (\<lambda>n. n), np_normal = (\<lambda>mu sd g. (mu, g + 1)) \<rparr>
          \<lparr> scaler_X_transform = (\<lambda>x. x), model_predict = (\<lambda>w. sum_list (map fst w)),
            scaler_y_inverse_transform = (\<lambda>y. y * 10) \<rparr>
          ''June'' ''Wetter (More Monsoon)'' 12 5 3 2 ''Dhaka'' (0::int) = Inr r
        \<and> length (out_total_mwh r) = 12
        \<and> out_confidence_lower r = map (\<lambda>p. 0.85 * p) (out_total_mwh r)
        \<and> out_confidence_upper r = map (\<lambda>p. 1.15 * p) (out_total_mwh r))"
proof -
  have a: "''June'' \<in> set month_options" by (simp add: month_options_def)
  have b: "''Wetter (More Monsoon)'' \<in> set scenario_options" by (simp add: scenario_options_def)
  from confidence_band [OF a b, where n = 12 and cap = 5 and w_mw = 3 and g_mw = 2
        and loc = "''Dhaka''" and g = "0::int"
        and np = "\<lparr> np_seed = (\<lambda>n. n), np_normal = (\<lambda>mu sd g. (mu, g + 1)) \<rparr>"
        and m = "\<lparr> scaler_X_transform = (\<lambda>x. x), model_predict = (\<lambda>w. sum_list (map fst w)),
            scaler_y_inverse_transform = (\<lambda>y. y * 10) \<rparr>"]
  show ?thesis using a b by blast
qed

lemma generate_climate_0:
  "generate_climate np s tm rm 0 g
     = Inr \<lparr> months = [], temperatures = [], rainfalls = [], rng = g \<rparr>"
  by (simp add: generate_climate_def)

text \<open>
  C8. The stored forecast does not depend on the state in which the handler finds the
  global random generator: every draw is made right after reseeding with \<open>42 + i\<close>, so
  the forecast is a function of the widgets, the loaded artifacts and the capacity.
\<close>

theorem forecast_independent_of_generator_state:
  "generate_forecast np m start_month sc n cap w_mw g_mw loc g1
     = generate_forecast np m start_month sc n cap w_mw g_mw loc g2"
proof (cases "n = 0")
  case True
  show ?thesis
    unfolding generate_forecast_def True generate_climate_0 sum.case climate_acc.select_convs ..
next
  case False
  have eq: "generate_climate np s tm rm n g1 = generate_climate np s tm rm n g2" for s tm rm
    by (rule generate_climate_rng [OF False])
  show ?thesis
    unfolding generate_forecast_def eq ..
qed

lemma november_labels:
  "map (\<lambda>i. month_names ! nat ((11 + int i - 1) mod 12) @ '' Y''
              @ str_int ((11 + int i - 1) div 12 + 1)) [0..<15]
   = [''Nov Y1'', ''Dec Y1'', ''Jan Y2'', ''Feb Y2'', ''Mar Y2'', ''Apr Y2'', ''May Y2'',
      ''Jun Y2'', ''Jul Y2'', ''Aug Y2'', ''Sep Y2'', ''Oct Y2'', ''Nov Y2'', ''Dec Y2'',
      ''Jan Y3'']"
  by code_simp

lemma november_num: "dict_lookup month_map ''November'' = Inr 11"
  by (simp add: dict_lookup_def month_map_def)

lemma november_option: "''November'' \<in> set month_options"
  by (simp add: month_options_def)

text \<open>
  C9. The label of step \<open>i\<close> is the short name of calendar month \<open>start + i\<close>
  followed by \<open>Y\<close> and one plus the number of year ends passed. For fifteen months
  from November the labels run \<open>Nov Y1\<close>, \<open>Dec Y1\<close>, \<open>Jan Y2\<close>, and so on up to
  \<open>Jan Y3\<close>.
\<close>

theorem month_labels_wrap:
  assumes "start_month \<in> set month_options" and "sc \<in> set scenario_options"
  shows "\<exists>s r r'.
       dict_lookup month_map start_month = Inr s
     \<and> generate_forecast np m start_month sc n cap w_mw g_mw loc g = Inr r
     \<and> out_months r = map (\<lambda>i. month_names ! nat ((s + int i - 1) mod 12) @ '' Y''
                              @ str_int ((s + int i - 1) div 12 + 1)) [0..<n]
     \<and> generate_forecast np m ''November'' sc 15 cap w_mw g_mw loc g = Inr r'
     \<and> out_months r' =
         [''Nov Y1'', ''Dec Y1'', ''Jan Y2'', ''Feb Y2'', ''Mar Y2'', ''Apr Y2'', ''May Y2'',
          ''Jun Y2'', ''Jul Y2'', ''Aug Y2'', ''Sep Y2'', ''Oct Y2'', ''Nov Y2'', ''Dec Y2'',
          ''Jan Y3'']"
proof -
  from generate_forecast_run [OF assms, where n = n and m = m and cap = cap and np = np
      and w_mw = w_mw and g_mw = g_mw and loc = loc and g = g]
  obtain s r where s: "dict_lookup month_map start_month = Inr s"
    and r: "generate_forecast np m start_month sc n cap w_mw g_mw loc g = Inr r"
    and l: "out_months r = map (\<lambda>i. month_names ! nat ((s + int i - 1) mod 12) @ '' Y''
                              @ str_int ((s + int i - 1) div 12 + 1)) [0..<n]"
    by blast
  from generate_forecast_run [OF november_option assms(2), where n = 15 and m = m and cap = cap
      and np = np and w_mw = w_mw and g_mw = g_mw and loc = loc and g = g]
  obtain r' where r': "generate_forecast np m ''November'' sc 15 cap w_mw g_mw loc g = Inr r'"
    and l': "out_months r' = map (\<lambda>i. month_names ! nat ((11 + int i - 1) mod 12) @ '' Y''
                              @ str_int ((11 + int i - 1) div 12 + 1)) [0..<15]"
    unfolding november_num by blast
  from s r l r' l' [unfolded november_labels] show ?thesis by blast
qed

theorem month_labels_wrap_witness:
  "''January'' \<in> set month_options \<and> ''Hotter'' \<in> set scenario_options
   \<and> (\<exists>r r'. generate_forecast
          \<lparr> np_seed = (\<lambda>n. n), np_normal = (\<lambda>mu sd g. (mu, g + 1)) \<rparr>
          \<lparr> scaler_X_transform = (\<lambda>x. x), model_predict = (\<lambda>w. sum_list (map fst w)),
            scaler_y_inverse_transform = (\<lambda>y. y * 10) \<rparr>
          ''January'' ''Hotter'' 14 5 3 2 ''Dhaka'' (0::int) = Inr r
        \<and> out_months r =
            [''Jan Y1'', ''Feb Y1'', ''Mar Y1'', ''Apr Y1'', ''May Y1'', ''Jun Y1'', ''Jul Y1'',
             ''Aug Y1'', ''Sep Y1'', ''Oct Y1'', ''Nov Y1'', ''Dec Y1'', ''Jan Y2'', ''Feb Y2'']
        \<and> generate_forecast
          \<lparr> np_seed = (\<lambda>n. n), np_normal = (\<lambda>mu sd g. (mu, g + 1)) \<rparr>
          \<lparr> scaler_X_transform = (\<lambda>x. x), model_predict = (\<lambda>w. sum_list (map fst w)),
            scaler_y_inverse_transform = (\<lambda>y. y * 10) \<rparr>
          ''November'' ''Hotter'' 15 5 3 2 ''Dhaka'' (0::int) = Inr r'
        \<and> out_months r' ! 1 = ''Dec Y1'' \<and> out_months r' ! 2 = ''Jan Y2'')"
proof -
  have a: "''January'' \<in> set month_options" by (simp add: month_options_def)
  have b: "''Hotter'' \<in> set scenario_options" by (simp add: scenario_options_def)
  have j: "dict_lookup month_map ''January'' = Inr 1"
    by (simp add: dict_lookup_def month_map_def)
  have e: "map (\<lambda>i. month_names ! nat ((1 + int i - 1) mod 12) @ '' Y''
              @ str_int ((1 + int i - 1) div 12 + 1)) [0..<14]
      = [''Jan Y1'', ''Feb Y1'', ''Mar Y1'', ''Apr Y1'', ''May Y1'', ''Jun Y1'', ''Jul Y1'',
         ''Aug Y1'', ''Sep Y1'', ''Oct Y1'', ''Nov Y1'', ''Dec Y1'', ''Jan Y2'', ''Feb Y2'']"
    by code_simp
  from month_labels_wrap [OF a b, where n = 14 and cap = 5 and w_mw = 3 and g_mw = 2
        and loc = "''Dhaka''" and g = "0::int"
        and np = "\<lparr> np_seed = (\<lambda>n. n), np_normal = (\<lambda>mu sd g. (mu, g + 1)) \<rparr>"
        and m = "\<lparr> scaler_X_transform = (\<lambda>x. x), model_predict = (\<lambda>w. sum_list (map fst w)),
            scaler_y_inverse_transform = (\<lambda>y. y * 10) \<rparr>"]
  obtain s r r' where s: "dict_lookup month_map ''January'' = Inr s"
    and r: "generate_forecast
          \<lparr> np_seed = (\<lambda>n. n), np_normal = (\<lambda>mu sd g. (mu, g + 1)) \<rparr>
          \<lparr> scaler_X_transform = (\<lambda>x. x), model_predict = (\<lambda>w. sum_list (map fst w)),
            scaler_y_inverse_transform = (\<lambda>y. y * 10) \<rparr>
          ''January'' ''Hotter'' 14 5 3 2 ''Dhaka'' (0::int) = Inr r"
    and l: "out_months r = map (\<lambda>i. month_names ! nat ((s + int i - 1) mod 12) @ '' Y''
              @ str_int ((s + int i - 1) div 12 + 1)) [0..<14]"
    and r': "generate_forecast
          \<lparr> np_seed = (\<lambda>n. n), np_normal = (\<lambda>mu sd g. (mu, g + 1)) \<rparr>
          \<lparr> scaler_X_transform = (\<lambda>x. x), model_predict = (\<lambda>w. sum_list (map fst w)),
            scaler_y_inverse_transform = (\<lambda>y. y * 10) \<rparr>
          ''November'' ''Hotter'' 15 5 3 2 ''Dhaka'' (0::int) = Inr r'"
    and l': "out_months r' =
         [''Nov Y1'', ''Dec Y1'', ''Jan Y2'', ''Feb Y2'', ''Mar Y2'', ''Apr Y2'', ''May Y2'',
          ''Jun Y2'', ''Jul Y2'', ''Aug Y2'', ''Sep Y2'', ''Oct Y2'', ''Nov Y2'', ''Dec Y2'',
          ''Jan Y3'']"
    by blast
  from s j have "s = 1" by simp
  with l have l1: "out_months r =
      [''Jan Y1'', ''Feb Y1'', ''Mar Y1'', ''Apr Y1'', ''May Y1'', ''Jun Y1'', ''Jul Y1'',
       ''Aug Y1'', ''Sep Y1'', ''Oct Y1'', ''Nov Y1'', ''Dec Y1'', ''Jan Y2'', ''Feb Y2'']"
    by (simp only: e)
  have "out_months r' ! 1 = ''Dec Y1''" and "out_months r' ! 2 = ''Jan Y2''"
    by (simp_all add: l')
  with a b r l1 r' show ?thesis by blast
qed

end
